theory Spec2Isabelle
  imports Main
begin

section \<open>The secrets bindings: pkg/bindings/secrets/secrets.go\<close>

text \<open>
  The file holds four functions, \<open>List\<close>, \<open>Inspect\<close>, \<open>Remove\<close> and \<open>Create\<close>. Each one
  fetches the client from the context (\<open>bindings.GetClient\<close>), calls \<open>conn.DoRequest\<close>
  once and hands the response to \<open>response.Process\<close>. The three helpers, and the
  \<open>ToParams\<close> method of the options, are declared elsewhere in the repository, so the
  functions below take them as a record of functions.
\<close>

subsection \<open>Data\<close>

text \<open>\<open>context.Context\<close>, \<open>*bindings.Connection\<close> and \<open>io.Reader\<close> are handles the four
  functions only pass on; the model keeps an identity for each and, for a reader, the bytes
  it would yield.\<close>

datatype Context = Context nat

datatype Connection = Connection nat

datatype Reader = Reader string

text \<open>\<open>url.Values\<close> is \<open>map[string][]string\<close>, the header argument is
  \<open>map[string]string\<close>; a Go map may be \<open>nil\<close>, which is \<open>None\<close> where one is passed.\<close>

type_synonym Values = "(string \<times> string list) list"

type_synonym Header = "(string \<times> string) list"

text \<open>Go's \<open>error\<close> values. The constructors follow the taxonomy of the specification
  (connection, transport, API and decode errors), with one more for a failed \<open>ToParams\<close>.\<close>

datatype error =
    ConnectionError string
  | TransportError string
  | ParamsError string
  | APIError nat string
  | DecodeError string

text \<open>The arguments of one call of
  \<open>DoRequest(httpBody, httpMethod, endpoint, queryParams, header, pathValues...)\<close>.\<close>

record Request =
  httpBody :: "Reader option"
  httpMethod :: string
  endpoint :: string
  queryParams :: "Values option"
  header :: "Header option"
  pathValues :: "string list"

text \<open>Modelled from the spec: \<open>bindings.APIResponse\<close> is declared outside this file; the
  specification's response carries a status and a body.\<close>

record APIResponse =
  StatusCode :: nat
  Body :: string

text \<open>\<open>http.MethodGet\<close>, \<open>http.MethodPost\<close> and \<open>http.MethodDelete\<close> of \<open>net/http\<close>.\<close>

definition MethodGet :: string where
  "MethodGet = ''GET''"

definition MethodPost :: string where
  "MethodPost = ''POST''"

definition MethodDelete :: string where
  "MethodDelete = ''DELETE''"

subsection \<open>The helpers the functions call\<close>

text \<open>
  \<^item> \<open>GetClient\<close> is \<open>bindings.GetClient(ctx)\<close>, returning \<open>(conn, err)\<close>;
  \<^item> \<open>DoRequest\<close> is \<open>conn.DoRequest(...)\<close>, returning \<open>(response, err)\<close>;
  \<^item> \<open>ToParams\<close> is \<open>options.ToParams()\<close>, returning \<open>(params, err)\<close>;
  \<^item> \<open>Process\<close> is \<open>response.Process(&x)\<close> for a variable \<open>x\<close> of the caller: it may
    write \<open>x\<close> and returns an error or \<open>nil\<close>. The model passes the value of \<open>x\<close> in and
    gets the new value back with the error. The variables of this file are a slice and two
    pointers, each \<open>nil\<close> (\<open>None\<close>) when declared;
  \<^item> \<open>ProcessNil\<close> is \<open>response.Process(nil)\<close>, which has nothing to write.

  The callers test \<open>err != nil\<close> first and use the value only when it is \<open>nil\<close>, so the
  first three return a sum, \<open>Inl\<close> the error.
\<close>

record ('o, 'v) bindings =
  GetClient :: "Context \<Rightarrow> error + Connection"
  DoRequest :: "Connection \<Rightarrow> Request \<Rightarrow> error + APIResponse"
  ToParams :: "'o \<Rightarrow> error + Values option"
  Process :: "APIResponse \<Rightarrow> 'v option \<Rightarrow> 'v option \<times> error option"
  ProcessNil :: "APIResponse \<Rightarrow> error option"

text \<open>The state is the wire: the requests handed to \<open>DoRequest\<close> so far, oldest first.
  A call of \<open>DoRequest\<close> appends its request whether or not it then succeeds.\<close>

type_synonym wire = "Request list"

definition call_DoRequest ::
  "('o, 'v) bindings \<Rightarrow> Connection \<Rightarrow> Request \<Rightarrow> wire \<Rightarrow> (error + APIResponse) \<times> wire" where
  "call_DoRequest env conn req w = (DoRequest env conn req, w @ [req])"

subsection \<open>The four functions\<close>

text \<open>
  A Go function returning \<open>(result, error)\<close> returns both values; the model returns the
  pair, \<open>None\<close> for \<open>nil\<close>, and the wire. In \<open>return secrs, response.Process(&secrs)\<close>
  the call runs before \<open>secrs\<close> is read, as the Go compiler orders it: the function returns
  what \<open>Process\<close> has written.
\<close>

definition List ::
  "('o, 'info list) bindings \<Rightarrow> Context \<Rightarrow> 'o \<Rightarrow> wire
    \<Rightarrow> ('info list option \<times> error option) \<times> wire" where
  "List env ctx options w =
    (let secrs = None in
     case GetClient env ctx of
       Inl err \<Rightarrow> ((None, Some err), w)
     | Inr conn \<Rightarrow>
        (case call_DoRequest env conn
                \<lparr>httpBody = None, httpMethod = MethodGet, endpoint = ''/secrets/json'',
                 queryParams = None, header = None, pathValues = []\<rparr> w of
           (Inl err, w') \<Rightarrow> ((secrs, Some err), w')
         | (Inr response, w') \<Rightarrow>
             (case Process env response secrs of
                (secrs', err) \<Rightarrow> ((secrs', err), w'))))"

definition Inspect ::
  "('o, 'info) bindings \<Rightarrow> Context \<Rightarrow> string \<Rightarrow> 'o \<Rightarrow> wire
    \<Rightarrow> ('info option \<times> error option) \<times> wire" where
  "Inspect env ctx nameOrID options w =
    (let inspect = None in
     case GetClient env ctx of
       Inl err \<Rightarrow> ((None, Some err), w)
     | Inr conn \<Rightarrow>
        (case call_DoRequest env conn
                \<lparr>httpBody = None, httpMethod = MethodGet, endpoint = ''/secrets/%s/json'',
                 queryParams = None, header = None, pathValues = [nameOrID]\<rparr> w of
           (Inl err, w') \<Rightarrow> ((inspect, Some err), w')
         | (Inr response, w') \<Rightarrow>
             (case Process env response inspect of
                (inspect', err) \<Rightarrow> ((inspect', err), w'))))"

definition Remove ::
  "('o, 'v) bindings \<Rightarrow> Context \<Rightarrow> string \<Rightarrow> wire \<Rightarrow> error option \<times> wire" where
  "Remove env ctx nameOrID w =
    (case GetClient env ctx of
       Inl err \<Rightarrow> (Some err, w)
     | Inr conn \<Rightarrow>
        (case call_DoRequest env conn
                \<lparr>httpBody = None, httpMethod = MethodDelete, endpoint = ''/secrets/%s'',
                 queryParams = None, header = None, pathValues = [nameOrID]\<rparr> w of
           (Inl err, w') \<Rightarrow> (Some err, w')
         | (Inr response, w') \<Rightarrow> (ProcessNil env response, w')))"

definition Create ::
  "('o, 'report) bindings \<Rightarrow> Context \<Rightarrow> Reader option \<Rightarrow> 'o \<Rightarrow> wire
    \<Rightarrow> ('report option \<times> error option) \<times> wire" where
  "Create env ctx reader options w =
    (let create = None in
     case GetClient env ctx of
       Inl err \<Rightarrow> ((None, Some err), w)
     | Inr conn \<Rightarrow>
        (case ToParams env options of
           Inl err \<Rightarrow> ((None, Some err), w)
         | Inr params \<Rightarrow>
            (case call_DoRequest env conn
                    \<lparr>httpBody = reader, httpMethod = MethodPost, endpoint = ''/secrets/create'',
                     queryParams = params, header = None, pathValues = []\<rparr> w of
               (Inl err, w') \<Rightarrow> ((None, Some err), w')
             | (Inr response, w') \<Rightarrow>
                 (case Process env response create of
                    (create', err) \<Rightarrow> ((create', err), w')))))"

subsection \<open>The response processor of the specification\<close>

text \<open>
  \<open>APIResponse.Process\<close> is declared outside this file. The definitions of this
  subsection follow the specification's response processor (sections 4.3, 6 and 7); the
  two JSON decoders, of a result body and of a failure payload, are parameters, \<open>None\<close>
  for a body that does not decode.
\<close>

text \<open>Modelled from the spec: the status test of the absent \<open>APIResponse\<close>. The status
  indicates success when it is 2xx ("any non-2xx status ... must still be surfaced").\<close>

definition IsSuccess :: "APIResponse \<Rightarrow> bool" where
  "IsSuccess response \<longleftrightarrow> 200 \<le> StatusCode response \<and> StatusCode response < 300"

text \<open>\<open>http.StatusNotFound\<close> of \<open>net/http\<close>, the not-found classification.\<close>

definition StatusNotFound :: nat where
  "StatusNotFound = 404"

text \<open>Modelled from the spec: the error-decode path of the absent \<open>Process\<close>, one for
  every operation. A success has no error. A failure whose payload decodes is the
  structured error with the server's status and message; one whose payload does not
  decode is a generic transport-classified error.\<close>

definition statusError :: "(string \<Rightarrow> string option) \<Rightarrow> APIResponse \<Rightarrow> error option" where
  "statusError decodeError response =
    (if IsSuccess response then None
     else (case decodeError (Body response) of
             Some msg \<Rightarrow> Some (APIError (StatusCode response) msg)
           | None \<Rightarrow> Some (TransportError (Body response))))"

text \<open>Modelled from the spec: the absent \<open>Process\<close> on a target that is not \<open>nil\<close>. On
  a success the body is decoded into the target, and a body that does not decode is a
  decode error. An operation "either fully succeeds with a fully decoded result or fully
  fails with exactly one error value", so a failing \<open>Process\<close> leaves the target as it
  was.\<close>

definition ProcessInto ::
  "(string \<Rightarrow> 'v option) \<Rightarrow> (string \<Rightarrow> string option) \<Rightarrow> APIResponse \<Rightarrow> 'v option
    \<Rightarrow> 'v option \<times> error option" where
  "ProcessInto decode decodeError response target =
    (case statusError decodeError response of
       Some err \<Rightarrow> (target, Some err)
     | None \<Rightarrow>
        (case decode (Body response) of
           Some v \<Rightarrow> (Some v, None)
         | None \<Rightarrow> (target, Some (DecodeError (Body response)))))"

text \<open>Modelled from the spec: the absent \<open>Process\<close> on a \<open>nil\<close> target. The status
  is validated all the same, and no body is decoded.\<close>

definition ProcessNone :: "(string \<Rightarrow> string option) \<Rightarrow> APIResponse \<Rightarrow> error option" where
  "ProcessNone decodeError response = statusError decodeError response"

text \<open>The helpers of \<open>env\<close> with the specification's processor in place of its own.\<close>

definition specified ::
  "(string \<Rightarrow> 'v option) \<Rightarrow> (string \<Rightarrow> string option) \<Rightarrow> ('o, 'v) bindings
    \<Rightarrow> ('o, 'v) bindings" where
  "specified decode decodeError env =
    env\<lparr>Process := ProcessInto decode decodeError, ProcessNil := ProcessNone decodeError\<rparr>"

text \<open>A call returning \<open>(result, error)\<close> has exactly one of the two populated.\<close>

definition exactly_one :: "'a option \<times> error option \<Rightarrow> bool" where
  "exactly_one p \<longleftrightarrow> (fst p = None) \<noteq> (snd p = None)"

text \<open>The requests a call added to the wire \<open>w\<close> it started from, and the verb, path
  template and path arguments of a request.\<close>

definition issued :: "wire \<Rightarrow> 'a \<times> wire \<Rightarrow> Request list" where
  "issued w out = drop (length w) (snd out)"

definition verb_path :: "Request \<Rightarrow> string \<times> string \<times> string list" where
  "verb_path req = (httpMethod req, endpoint req, pathValues req)"

subsection \<open>An example environment\<close>

text \<open>
  Helpers to run the four functions on concrete inputs. The context \<open>Context 0\<close> holds no
  client; the connection of \<open>Context 1\<close> refuses every request; any other connection
  reaches a server that knows no secret called \<open>gone\<close> and answers every other request
  with status 200 and the body \<open>abc123\<close>. Options are the key-value pairs they encode
  to; an empty key does not encode, and no pairs encode to no parameters.
\<close>

definition demo_GetClient :: "Context \<Rightarrow> error + Connection" where
  "demo_GetClient ctx =
    (case ctx of Context n \<Rightarrow>
       if n = 0 then Inl (ConnectionError ''no client in context'') else Inr (Connection n))"

definition demo_DoRequest :: "Connection \<Rightarrow> Request \<Rightarrow> error + APIResponse" where
  "demo_DoRequest conn req =
    (case conn of Connection n \<Rightarrow>
       if n = 1 then Inl (TransportError ''connection refused'')
       else if pathValues req = [''gone'']
         then Inr \<lparr>StatusCode = 404, Body = ''no such secret''\<rparr>
       else Inr \<lparr>StatusCode = 200, Body = ''abc123''\<rparr>)"

definition demo_ToParams :: "Values \<Rightarrow> error + Values option" where
  "demo_ToParams options =
    (if [] \<in> set (map fst options) then Inl (ParamsError ''empty key'')
     else if options = [] then Inr None
     else Inr (Some options))"

definition demo_decode :: "string \<Rightarrow> string option" where
  "demo_decode b = (if b = [] then None else Some b)"

definition demo_decode_list :: "string \<Rightarrow> string list option" where
  "demo_decode_list b = (if b = [] then None else Some [b])"

definition demo :: "(string \<Rightarrow> 'v option) \<Rightarrow> (Values, 'v) bindings" where
  "demo decode =
    \<lparr>GetClient = demo_GetClient, DoRequest = demo_DoRequest, ToParams = demo_ToParams,
     Process = ProcessInto decode demo_decode, ProcessNil = ProcessNone demo_decode\<rparr>"

section \<open>Properties\<close>

subsection \<open>What each function puts on the wire and what it returns\<close>

text \<open>The requests a call adds to the wire, and its return values, read off the helpers'
  results. These lemmas are the basis of the theorems below.\<close>

lemma List_wire:
  "snd (List env ctx options w) =
    w @ (case GetClient env ctx of
           Inl err \<Rightarrow> []
         | Inr conn \<Rightarrow>
            [\<lparr>httpBody = None, httpMethod = ''GET'', endpoint = ''/secrets/json'',
              queryParams = None, header = None, pathValues = []\<rparr>])"
  by (simp add: List_def call_DoRequest_def MethodGet_def split: sum.split prod.split)

lemma Inspect_wire:
  "snd (Inspect env ctx nameOrID options w) =
    w @ (case GetClient env ctx of
           Inl err \<Rightarrow> []
         | Inr conn \<Rightarrow>
            [\<lparr>httpBody = None, httpMethod = ''GET'', endpoint = ''/secrets/%s/json'',
              queryParams = None, header = None, pathValues = [nameOrID]\<rparr>])"
  by (simp add: Inspect_def call_DoRequest_def MethodGet_def split: sum.split prod.split)

lemma Remove_wire:
  "snd (Remove env ctx nameOrID w) =
    w @ (case GetClient env ctx of
           Inl err \<Rightarrow> []
         | Inr conn \<Rightarrow>
            [\<lparr>httpBody = None, httpMethod = ''DELETE'', endpoint = ''/secrets/%s'',
              queryParams = None, header = None, pathValues = [nameOrID]\<rparr>])"
  by (simp add: Remove_def call_DoRequest_def MethodDelete_def split: sum.split prod.split)

lemma Create_wire:
  "snd (Create env ctx reader options w) =
    w @ (case GetClient env ctx of
           Inl err \<Rightarrow> []
         | Inr conn \<Rightarrow>
            (case ToParams env options of
               Inl err \<Rightarrow> []
             | Inr params \<Rightarrow>
                [\<lparr>httpBody = reader, httpMethod = ''POST'', endpoint = ''/secrets/create'',
                  queryParams = params, header = None, pathValues = []\<rparr>]))"
  by (simp add: Create_def call_DoRequest_def MethodPost_def split: sum.split prod.split)

lemma List_returns:
  "fst (List env ctx options w) =
    (case GetClient env ctx of
       Inl err \<Rightarrow> (None, Some err)
     | Inr conn \<Rightarrow>
        (case DoRequest env conn
                \<lparr>httpBody = None, httpMethod = ''GET'', endpoint = ''/secrets/json'',
                 queryParams = None, header = None, pathValues = []\<rparr> of
           Inl err \<Rightarrow> (None, Some err)
         | Inr response \<Rightarrow> Process env response None))"
  by (simp add: List_def call_DoRequest_def MethodGet_def split: sum.split prod.split)

lemma Inspect_returns:
  "fst (Inspect env ctx nameOrID options w) =
    (case GetClient env ctx of
       Inl err \<Rightarrow> (None, Some err)
     | Inr conn \<Rightarrow>
        (case DoRequest env conn
                \<lparr>httpBody = None, httpMethod = ''GET'', endpoint = ''/secrets/%s/json'',
                 queryParams = None, header = None, pathValues = [nameOrID]\<rparr> of
           Inl err \<Rightarrow> (None, Some err)
         | Inr response \<Rightarrow> Process env response None))"
  by (simp add: Inspect_def call_DoRequest_def MethodGet_def split: sum.split prod.split)

lemma Remove_returns:
  "fst (Remove env ctx nameOrID w) =
    (case GetClient env ctx of
       Inl err \<Rightarrow> Some err
     | Inr conn \<Rightarrow>
        (case DoRequest env conn
                \<lparr>httpBody = None, httpMethod = ''DELETE'', endpoint = ''/secrets/%s'',
                 queryParams = None, header = None, pathValues = [nameOrID]\<rparr> of
           Inl err \<Rightarrow> Some err
         | Inr response \<Rightarrow> ProcessNil env response))"
  by (simp add: Remove_def call_DoRequest_def MethodDelete_def split: sum.split prod.split)

lemma Create_returns:
  "fst (Create env ctx reader options w) =
    (case GetClient env ctx of
       Inl err \<Rightarrow> (None, Some err)
     | Inr conn \<Rightarrow>
        (case ToParams env options of
           Inl err \<Rightarrow> (None, Some err)
         | Inr params \<Rightarrow>
            (case DoRequest env conn
                    \<lparr>httpBody = reader, httpMethod = ''POST'', endpoint = ''/secrets/create'',
                     queryParams = params, header = None, pathValues = []\<rparr> of
               Inl err \<Rightarrow> (None, Some err)
             | Inr response \<Rightarrow> Process env response None)))"
  by (simp add: Create_def call_DoRequest_def MethodPost_def split: sum.split prod.split)

lemma List_issued:
  "issued w (List env ctx options w) =
    (case GetClient env ctx of
       Inl err \<Rightarrow> []
     | Inr conn \<Rightarrow>
        [\<lparr>httpBody = None, httpMethod = ''GET'', endpoint = ''/secrets/json'',
          queryParams = None, header = None, pathValues = []\<rparr>])"
  by (simp add: issued_def List_wire)

lemma Inspect_issued:
  "issued w (Inspect env ctx nameOrID options w) =
    (case GetClient env ctx of
       Inl err \<Rightarrow> []
     | Inr conn \<Rightarrow>
        [\<lparr>httpBody = None, httpMethod = ''GET'', endpoint = ''/secrets/%s/json'',
          queryParams = None, header = None, pathValues = [nameOrID]\<rparr>])"
  by (simp add: issued_def Inspect_wire)

lemma Remove_issued:
  "issued w (Remove env ctx nameOrID w) =
    (case GetClient env ctx of
       Inl err \<Rightarrow> []
     | Inr conn \<Rightarrow>
        [\<lparr>httpBody = None, httpMethod = ''DELETE'', endpoint = ''/secrets/%s'',
          queryParams = None, header = None, pathValues = [nameOrID]\<rparr>])"
  by (simp add: issued_def Remove_wire)

lemma Create_issued:
  "issued w (Create env ctx reader options w) =
    (case GetClient env ctx of
       Inl err \<Rightarrow> []
     | Inr conn \<Rightarrow>
        (case ToParams env options of
           Inl err \<Rightarrow> []
         | Inr params \<Rightarrow>
            [\<lparr>httpBody = reader, httpMethod = ''POST'', endpoint = ''/secrets/create'',
              queryParams = params, header = None, pathValues = []\<rparr>]))"
  by (simp add: issued_def Create_wire)

lemma specified_simps [simp]:
  "GetClient (specified decode decodeError env) = GetClient env"
  "DoRequest (specified decode decodeError env) = DoRequest env"
  "ToParams (specified decode decodeError env) = ToParams env"
  "Process (specified decode decodeError env) = ProcessInto decode decodeError"
  "ProcessNil (specified decode decodeError env) = ProcessNone decodeError"
  by (simp_all add: specified_def)

lemma demo_simps [simp]:
  "GetClient (demo decode) = demo_GetClient"
  "DoRequest (demo decode) = demo_DoRequest"
  "ToParams (demo decode) = demo_ToParams"
  "Process (demo decode) = ProcessInto decode demo_decode"
  "ProcessNil (demo decode) = ProcessNone demo_decode"
  by (simp_all add: demo_def)

lemma ProcessInto_exactly_one: "exactly_one (ProcessInto decode decodeError response None)"
  by (simp add: exactly_one_def ProcessInto_def split: option.split)

subsection \<open>The body stream of Create\<close>

text \<open>
  C1 says that \<open>Create\<close> with a \<open>nil\<close> body stream fails locally, returning an error
  before any request is issued. The function never tests its reader. In the example
  environment a \<open>nil\<close> reader goes to \<open>DoRequest\<close> as the body of the request, and the
  call succeeds.
\<close>

theorem Create_nil_reader_counterexample:
  "Create (demo demo_decode) (Context 2) None [(''name'', [''db-pass''])] [] =
    ((Some ''abc123'', None),
     [\<lparr>httpBody = None, httpMethod = ''POST'', endpoint = ''/secrets/create'',
       queryParams = Some [(''name'', [''db-pass''])], header = None, pathValues = []\<rparr>])"
  by (simp add: Create_def call_DoRequest_def MethodPost_def demo_GetClient_def
      demo_DoRequest_def demo_ToParams_def demo_decode_def ProcessInto_def statusError_def
      IsSuccess_def)

text \<open>
  C1, amended: \<open>Create\<close> does not check its body stream. With a \<open>nil\<close> reader it issues
  no request only when acquiring the connection or encoding the options fails, and then
  returns that error; otherwise it issues the one \<open>POST /secrets/create\<close> request, with a
  \<open>nil\<close> body, and returns the error of \<open>DoRequest\<close> or what \<open>Process\<close> yields.
\<close>

theorem Create_nil_reader:
  "issued w (Create env ctx None options w) =
     (case GetClient env ctx of
        Inl err \<Rightarrow> []
      | Inr conn \<Rightarrow>
         (case ToParams env options of
            Inl err \<Rightarrow> []
          | Inr params \<Rightarrow>
             [\<lparr>httpBody = None, httpMethod = ''POST'', endpoint = ''/secrets/create'',
               queryParams = params, header = None, pathValues = []\<rparr>]))
   \<and> fst (Create env ctx None options w) =
     (case GetClient env ctx of
        Inl err \<Rightarrow> (None, Some err)
      | Inr conn \<Rightarrow>
         (case ToParams env options of
            Inl err \<Rightarrow> (None, Some err)
          | Inr params \<Rightarrow>
             (case DoRequest env conn
                     \<lparr>httpBody = None, httpMethod = ''POST'', endpoint = ''/secrets/create'',
                      queryParams = params, header = None, pathValues = []\<rparr> of
                Inl err \<Rightarrow> (None, Some err)
              | Inr response \<Rightarrow> Process env response None)))"
  by (simp add: Create_issued Create_returns)

subsection \<open>The query parameters of List\<close>

text \<open>
  C2 says that \<open>List\<close> encodes its filter options into the query parameters of its
  request, so that options holding exactly the filter \<open>name=foo\<close> give exactly that
  parameter and no others. In the example environment such options encode to the one
  parameter \<open>name=foo\<close>, yet the one request \<open>List\<close> issues for them carries no query
  parameters (\<open>nil\<close>).
\<close>

theorem List_filter_counterexample:
  "ToParams (demo demo_decode_list) [(''name'', [''foo''])] = Inr (Some [(''name'', [''foo''])])
   \<and> issued [] (List (demo demo_decode_list) (Context 2) [(''name'', [''foo''])] []) =
       [\<lparr>httpBody = None, httpMethod = ''GET'', endpoint = ''/secrets/json'',
         queryParams = None, header = None, pathValues = []\<rparr>]
   \<and> map queryParams
        (issued [] (List (demo demo_decode_list) (Context 2) [(''name'', [''foo''])] []))
       \<noteq> [Some [(''name'', [''foo''])]]"
  by (simp add: List_issued demo_GetClient_def demo_ToParams_def)

text \<open>
  C2, amended: \<open>List\<close> accepts an options value and does not consult it. For every
  options value, also one whose filters are exactly \<open>name=foo\<close>, the request \<open>List\<close>
  issues carries no query parameters (\<open>nil\<close>), and the call does the same, on the wire
  and in what it returns, as for any other options value.
\<close>

theorem List_sends_no_query_parameters:
  "map queryParams (issued w (List env ctx options w)) =
     (case GetClient env ctx of Inl err \<Rightarrow> [] | Inr conn \<Rightarrow> [None])
   \<and> List env ctx options w = List env ctx options' w"
proof -
  have params: "map queryParams (issued w (List env ctx options w)) =
     (case GetClient env ctx of Inl err \<Rightarrow> [] | Inr conn \<Rightarrow> [None])"
    by (simp add: List_issued split: sum.split)
  have same: "List env ctx options w = List env ctx options' w"
    by (simp add: List_def)
  from params same show ?thesis by simp
qed

subsection \<open>Verbs and paths\<close>

text \<open>
  C4: each operation issues its request with the specified verb and path template. The
  request of \<open>List\<close> is \<open>GET /secrets/json\<close>, that of \<open>Inspect\<close> is \<open>GET\<close> on the
  template \<open>/secrets/%s/json\<close> with the identifier as the one path argument for its one
  slot, that of \<open>Create\<close> is \<open>POST /secrets/create\<close>, that of \<open>Remove\<close> is \<open>DELETE\<close>
  on \<open>/secrets/%s\<close> with the identifier as the one path argument. A call that issues no
  request is one that acquired no connection or, for \<open>Create\<close>, could not encode its
  options.
\<close>

theorem verbs_and_paths:
  "map verb_path (issued w (List envL ctx listOptions w)) =
     (case GetClient envL ctx of
        Inl err \<Rightarrow> [] | Inr conn \<Rightarrow> [(''GET'', ''/secrets/json'', [])])
   \<and> map verb_path (issued w (Inspect envI ctx nameOrID inspectOptions w)) =
     (case GetClient envI ctx of
        Inl err \<Rightarrow> [] | Inr conn \<Rightarrow> [(''GET'', ''/secrets/%s/json'', [nameOrID])])
   \<and> map verb_path (issued w (Create envC ctx reader createOptions w)) =
     (case GetClient envC ctx of
        Inl err \<Rightarrow> []
      | Inr conn \<Rightarrow>
         (case ToParams envC createOptions of
            Inl err \<Rightarrow> [] | Inr params \<Rightarrow> [(''POST'', ''/secrets/create'', [])]))
   \<and> map verb_path (issued w (Remove envR ctx nameOrID w)) =
     (case GetClient envR ctx of
        Inl err \<Rightarrow> [] | Inr conn \<Rightarrow> [(''DELETE'', ''/secrets/%s'', [nameOrID])])"
  by (simp add: List_issued Inspect_issued Create_issued Remove_issued verb_path_def
      split: sum.split)

subsection \<open>Options and body of Create\<close>

text \<open>
  C7: every request \<open>Create\<close> issues has the caller's reader, as it was given, for its
  body, and for its query parameters what \<open>ToParams\<close> returned for the options. The body
  is the same whatever the options are, and the query parameters are the same whatever
  the reader is.
\<close>

theorem Create_params_and_body:
  "(\<forall>req \<in> set (issued w (Create env ctx reader options w)).
      httpBody req = reader \<and> ToParams env options = Inr (queryParams req))
   \<and> map queryParams (issued w (Create env ctx reader options w))
       = map queryParams (issued w (Create env ctx reader' options w))"
  by (auto simp add: Create_issued split: sum.splits)

theorem Create_params_and_body_witness:
  "issued [] (Create (demo demo_decode) (Context 2) (Some (Reader ''topsecret''))
       [(''name'', [''db-pass''])] []) =
     [\<lparr>httpBody = Some (Reader ''topsecret''), httpMethod = ''POST'',
       endpoint = ''/secrets/create'', queryParams = Some [(''name'', [''db-pass''])],
       header = None, pathValues = []\<rparr>]
   \<and> ToParams (demo demo_decode) [(''name'', [''db-pass''])]
       = Inr (Some [(''name'', [''db-pass''])])"
  using Create_params_and_body [where w = "[]" and env = "demo demo_decode"
      and ctx = "Context 2" and reader = "Some (Reader ''topsecret'')"
      and options = "[(''name'', [''db-pass''])]" and reader' = None]
  by (simp add: Create_issued demo_GetClient_def demo_ToParams_def)

subsection \<open>Single round trip\<close>

text \<open>
  C9: every operation invokes \<open>DoRequest\<close> at most once. A call leaves the earlier
  requests on the wire as they were and adds at most one; it adds exactly one when the
  connection was acquired (and, for \<open>Create\<close>, the options encoded), whether or not that
  request then fails, and none otherwise.
\<close>

theorem single_round_trip:
  "(snd (List envL ctx listOptions w) = w @ issued w (List envL ctx listOptions w)
    \<and> length (issued w (List envL ctx listOptions w)) =
        (case GetClient envL ctx of Inl err \<Rightarrow> 0 | Inr conn \<Rightarrow> 1)
    \<and> length (issued w (List envL ctx listOptions w)) \<le> 1)
   \<and> (snd (Inspect envI ctx nameOrID inspectOptions w)
         = w @ issued w (Inspect envI ctx nameOrID inspectOptions w)
    \<and> length (issued w (Inspect envI ctx nameOrID inspectOptions w)) =
        (case GetClient envI ctx of Inl err \<Rightarrow> 0 | Inr conn \<Rightarrow> 1)
    \<and> length (issued w (Inspect envI ctx nameOrID inspectOptions w)) \<le> 1)
   \<and> (snd (Create envC ctx reader createOptions w)
         = w @ issued w (Create envC ctx reader createOptions w)
    \<and> length (issued w (Create envC ctx reader createOptions w)) =
        (case GetClient envC ctx of
           Inl err \<Rightarrow> 0
         | Inr conn \<Rightarrow> (case ToParams envC createOptions of Inl err \<Rightarrow> 0 | Inr params \<Rightarrow> 1))
    \<and> length (issued w (Create envC ctx reader createOptions w)) \<le> 1)
   \<and> (snd (Remove envR ctx nameOrID w) = w @ issued w (Remove envR ctx nameOrID w)
    \<and> length (issued w (Remove envR ctx nameOrID w)) =
        (case GetClient envR ctx of Inl err \<Rightarrow> 0 | Inr conn \<Rightarrow> 1)
    \<and> length (issued w (Remove envR ctx nameOrID w)) \<le> 1)"
proof -
  have l: "snd (List envL ctx listOptions w) = w @ issued w (List envL ctx listOptions w)"
    by (simp add: List_issued List_wire)
  have i: "snd (Inspect envI ctx nameOrID inspectOptions w)
      = w @ issued w (Inspect envI ctx nameOrID inspectOptions w)"
    by (simp add: Inspect_issued Inspect_wire)
  have c: "snd (Create envC ctx reader createOptions w)
      = w @ issued w (Create envC ctx reader createOptions w)"
    by (simp add: Create_issued Create_wire)
  have r: "snd (Remove envR ctx nameOrID w) = w @ issued w (Remove envR ctx nameOrID w)"
    by (simp add: Remove_issued Remove_wire)
  show ?thesis
    using l i c r
    by (simp add: List_issued Inspect_issued Create_issued Remove_issued split: sum.split)
qed

subsection \<open>Errors of the lower layers\<close>

text \<open>
  C8: if acquiring the connection fails with the error \<open>e\<close>, every operation returns
  exactly \<open>e\<close>, with an absent result, and leaves the wire as it was. More generally the
  error an operation returns is, unchanged, the error of the first helper that failed
  (\<open>GetClient\<close>, then \<open>ToParams\<close> for \<open>Create\<close>, then \<open>DoRequest\<close>, then
  \<open>Process\<close>), and \<open>nil\<close> when none did; none is swallowed or replaced.
\<close>

theorem lower_layer_errors_forwarded:
  "(GetClient envL ctx = Inl e \<longrightarrow> List envL ctx listOptions w = ((None, Some e), w))
   \<and> (GetClient envI ctx = Inl e \<longrightarrow>
        Inspect envI ctx nameOrID inspectOptions w = ((None, Some e), w))
   \<and> (GetClient envC ctx = Inl e \<longrightarrow>
        Create envC ctx reader createOptions w = ((None, Some e), w))
   \<and> (GetClient envR ctx = Inl e \<longrightarrow> Remove envR ctx nameOrID w = (Some e, w))
   \<and> snd (fst (List envL ctx' listOptions w)) =
       (case GetClient envL ctx' of
          Inl err \<Rightarrow> Some err
        | Inr conn \<Rightarrow>
           (case DoRequest envL conn
                   \<lparr>httpBody = None, httpMethod = ''GET'', endpoint = ''/secrets/json'',
                    queryParams = None, header = None, pathValues = []\<rparr> of
              Inl err \<Rightarrow> Some err
            | Inr response \<Rightarrow> snd (Process envL response None)))
   \<and> snd (fst (Inspect envI ctx' nameOrID inspectOptions w)) =
       (case GetClient envI ctx' of
          Inl err \<Rightarrow> Some err
        | Inr conn \<Rightarrow>
           (case DoRequest envI conn
                   \<lparr>httpBody = None, httpMethod = ''GET'', endpoint = ''/secrets/%s/json'',
                    queryParams = None, header = None, pathValues = [nameOrID]\<rparr> of
              Inl err \<Rightarrow> Some err
            | Inr response \<Rightarrow> snd (Process envI response None)))
   \<and> snd (fst (Create envC ctx' reader createOptions w)) =
       (case GetClient envC ctx' of
          Inl err \<Rightarrow> Some err
        | Inr conn \<Rightarrow>
           (case ToParams envC createOptions of
              Inl err \<Rightarrow> Some err
            | Inr params \<Rightarrow>
               (case DoRequest envC conn
                       \<lparr>httpBody = reader, httpMethod = ''POST'',
                        endpoint = ''/secrets/create'', queryParams = params, header = None,
                        pathValues = []\<rparr> of
                  Inl err \<Rightarrow> Some err
                | Inr response \<Rightarrow> snd (Process envC response None))))
   \<and> fst (Remove envR ctx' nameOrID w) =
       (case GetClient envR ctx' of
          Inl err \<Rightarrow> Some err
        | Inr conn \<Rightarrow>
           (case DoRequest envR conn
                   \<lparr>httpBody = None, httpMethod = ''DELETE'', endpoint = ''/secrets/%s'',
                    queryParams = None, header = None, pathValues = [nameOrID]\<rparr> of
              Inl err \<Rightarrow> Some err
            | Inr response \<Rightarrow> ProcessNil envR response))"
proof -
  have l: "GetClient envL ctx = Inl e \<longrightarrow> List envL ctx listOptions w = ((None, Some e), w)"
    by (simp add: List_def)
  have i: "GetClient envI ctx = Inl e \<longrightarrow>
      Inspect envI ctx nameOrID inspectOptions w = ((None, Some e), w)"
    by (simp add: Inspect_def)
  have c: "GetClient envC ctx = Inl e \<longrightarrow>
      Create envC ctx reader createOptions w = ((None, Some e), w)"
    by (simp add: Create_def)
  have r: "GetClient envR ctx = Inl e \<longrightarrow> Remove envR ctx nameOrID w = (Some e, w)"
    by (simp add: Remove_def)
  have l': "snd (fst (List envL ctx' listOptions w)) =
       (case GetClient envL ctx' of
          Inl err \<Rightarrow> Some err
        | Inr conn \<Rightarrow>
           (case DoRequest envL conn
                   \<lparr>httpBody = None, httpMethod = ''GET'', endpoint = ''/secrets/json'',
                    queryParams = None, header = None, pathValues = []\<rparr> of
              Inl err \<Rightarrow> Some err
            | Inr response \<Rightarrow> snd (Process envL response None)))"
    by (simp add: List_returns split: sum.split)
  have i': "snd (fst (Inspect envI ctx' nameOrID inspectOptions w)) =
       (case GetClient envI ctx' of
          Inl err \<Rightarrow> Some err
        | Inr conn \<Rightarrow>
           (case DoRequest envI conn
                   \<lparr>httpBody = None, httpMethod = ''GET'', endpoint = ''/secrets/%s/json'',
                    queryParams = None, header = None, pathValues = [nameOrID]\<rparr> of
              Inl err \<Rightarrow> Some err
            | Inr response \<Rightarrow> snd (Process envI response None)))"
    by (simp add: Inspect_returns split: sum.split)
  have c': "snd (fst (Create envC ctx' reader createOptions w)) =
       (case GetClient envC ctx' of
          Inl err \<Rightarrow> Some err
        | Inr conn \<Rightarrow>
           (case ToParams envC createOptions of
              Inl err \<Rightarrow> Some err
            | Inr params \<Rightarrow>
               (case DoRequest envC conn
                       \<lparr>httpBody = reader, httpMethod = ''POST'',
                        endpoint = ''/secrets/create'', queryParams = params, header = None,
                        pathValues = []\<rparr> of
                  Inl err \<Rightarrow> Some err
                | Inr response \<Rightarrow> snd (Process envC response None))))"
    by (simp add: Create_returns split: sum.split)
  have r': "fst (Remove envR ctx' nameOrID w) =
       (case GetClient envR ctx' of
          Inl err \<Rightarrow> Some err
        | Inr conn \<Rightarrow>
           (case DoRequest envR conn
                   \<lparr>httpBody = None, httpMethod = ''DELETE'', endpoint = ''/secrets/%s'',
                    queryParams = None, header = None, pathValues = [nameOrID]\<rparr> of
              Inl err \<Rightarrow> Some err
            | Inr response \<Rightarrow> ProcessNil envR response))"
    by (simp add: Remove_returns)
  from l i c r l' i' c' r' show ?thesis by blast
qed

theorem lower_layer_errors_forwarded_witness:
  "GetClient (demo demo_decode) (Context 0) = Inl (ConnectionError ''no client in context'')
   \<and> List (demo demo_decode_list) (Context 0) [] [] =
       ((None, Some (ConnectionError ''no client in context'')), [])
   \<and> Inspect (demo demo_decode) (Context 0) ''db-pass'' [] [] =
       ((None, Some (ConnectionError ''no client in context'')), [])
   \<and> Create (demo demo_decode) (Context 0) (Some (Reader ''topsecret'')) [] [] =
       ((None, Some (ConnectionError ''no client in context'')), [])
   \<and> Remove (demo demo_decode) (Context 0) ''db-pass'' [] =
       (Some (ConnectionError ''no client in context''), [])
   \<and> snd (fst (List (demo demo_decode_list) (Context 1) [] [])) =
       Some (TransportError ''connection refused'')
   \<and> snd (fst (Create (demo demo_decode) (Context 2) (Some (Reader ''topsecret''))
               [([], [''x''])] [])) = Some (ParamsError ''empty key'')
   \<and> fst (Remove (demo demo_decode) (Context 2) ''gone'' []) =
       Some (APIError 404 ''no such secret'')"
  using lower_layer_errors_forwarded [where envL = "demo demo_decode_list"
      and envI = "demo demo_decode" and envC = "demo demo_decode"
      and envR = "demo demo_decode" and ctx = "Context 0"
      and e = "ConnectionError ''no client in context''" and listOptions = "[]"
      and inspectOptions = "[]" and createOptions = "[]" and nameOrID = "''db-pass''"
      and reader = "Some (Reader ''topsecret'')" and w = "[]" and ctx' = "Context 1"]
  by (simp add: Create_returns Remove_returns demo_GetClient_def demo_DoRequest_def
      demo_ToParams_def demo_decode_def ProcessNone_def statusError_def IsSuccess_def)

subsection \<open>Result variables on the early returns\<close>

text \<open>
  C10: when acquiring the connection fails, and when \<open>DoRequest\<close> fails, \<open>List\<close> returns
  a \<open>nil\<close> slice (not an empty one) with the error and \<open>Inspect\<close> returns a \<open>nil\<close>
  pointer with the error: nothing has written the result variable before the response is
  processed.
\<close>

theorem nil_result_on_early_return:
  "(GetClient envL ctx = Inl e \<longrightarrow> fst (List envL ctx listOptions w) = (None, Some e))
   \<and> (GetClient envL ctx' = Inr conn
       \<and> DoRequest envL conn
            \<lparr>httpBody = None, httpMethod = ''GET'', endpoint = ''/secrets/json'',
             queryParams = None, header = None, pathValues = []\<rparr> = Inl e' \<longrightarrow>
        fst (List envL ctx' listOptions w) = (None, Some e'))
   \<and> (GetClient envI ctx = Inl e \<longrightarrow>
        fst (Inspect envI ctx nameOrID inspectOptions w) = (None, Some e))
   \<and> (GetClient envI ctx' = Inr conn
       \<and> DoRequest envI conn
            \<lparr>httpBody = None, httpMethod = ''GET'', endpoint = ''/secrets/%s/json'',
             queryParams = None, header = None, pathValues = [nameOrID]\<rparr> = Inl e' \<longrightarrow>
        fst (Inspect envI ctx' nameOrID inspectOptions w) = (None, Some e'))"
  by (simp add: List_returns Inspect_returns)

theorem nil_result_on_early_return_witness:
  "GetClient (demo demo_decode) (Context 0) = Inl (ConnectionError ''no client in context'')
   \<and> fst (List (demo demo_decode_list) (Context 0) [] []) =
       (None, Some (ConnectionError ''no client in context''))
   \<and> fst (Inspect (demo demo_decode) (Context 0) ''db-pass'' [] []) =
       (None, Some (ConnectionError ''no client in context''))
   \<and> GetClient (demo demo_decode) (Context 1) = Inr (Connection 1)
   \<and> DoRequest (demo demo_decode) (Connection 1)
        \<lparr>httpBody = None, httpMethod = ''GET'', endpoint = ''/secrets/%s/json'',
         queryParams = None, header = None, pathValues = [''db-pass'']\<rparr>
       = Inl (TransportError ''connection refused'')
   \<and> fst (List (demo demo_decode_list) (Context 1) [] []) =
       (None, Some (TransportError ''connection refused''))
   \<and> fst (Inspect (demo demo_decode) (Context 1) ''db-pass'' [] []) =
       (None, Some (TransportError ''connection refused''))"
  using nil_result_on_early_return [where envL = "demo demo_decode_list"
      and envI = "demo demo_decode" and ctx = "Context 0"
      and e = "ConnectionError ''no client in context''" and ctx' = "Context 1"
      and conn = "Connection 1" and e' = "TransportError ''connection refused''"
      and listOptions = "[]" and inspectOptions = "[]" and nameOrID = "''db-pass''"
      and w = "[]"]
  by (simp add: demo_GetClient_def demo_DoRequest_def)

subsection \<open>With the response processor of the specification\<close>

text \<open>The three functions that return a result return, on their last line, the target
  as \<open>Process\<close> left it together with the error of \<open>Process\<close>; every earlier return has a
  \<open>nil\<close> result and an error. So they return exactly one of the two whenever \<open>Process\<close>
  does, on a \<open>nil\<close> target.\<close>

lemma exactly_one_error [simp]: "exactly_one (None, Some err)"
  by (simp add: exactly_one_def)

lemma List_exactly_one:
  assumes "\<And>response. exactly_one (Process env response None)"
  shows "exactly_one (fst (List env ctx listOptions w))"
  using assms by (simp add: List_returns split: sum.split)

lemma Inspect_exactly_one:
  assumes "\<And>response. exactly_one (Process env response None)"
  shows "exactly_one (fst (Inspect env ctx nameOrID inspectOptions w))"
  using assms by (simp add: Inspect_returns split: sum.split)

lemma Create_exactly_one:
  assumes "\<And>response. exactly_one (Process env response None)"
  shows "exactly_one (fst (Create env ctx reader createOptions w))"
  using assms by (simp add: Create_returns split: sum.split)

text \<open>
  C3: every operation produces exactly one of a typed result and an error. For \<open>List\<close>,
  \<open>Inspect\<close> and \<open>Create\<close>, with the response processor of the specification: the result
  is \<open>nil\<close> whenever the error is not, and the error is \<open>nil\<close> whenever the result is
  not, never both and never neither. \<open>Remove\<close> returns a single value, which is
  either \<open>nil\<close>, the success, or an error; it has no result to pair it with.
\<close>

theorem exactly_one_result_or_error:
  "exactly_one (fst (List (specified decodeL decodeError envL) ctx listOptions w))
   \<and> exactly_one
        (fst (Inspect (specified decodeI decodeError envI) ctx nameOrID inspectOptions w))
   \<and> exactly_one
        (fst (Create (specified decodeC decodeError envC) ctx reader createOptions w))
   \<and> (fst (Remove (specified decodeR decodeError envR) ctx nameOrID w) = None)
        \<noteq> (\<exists>err. fst (Remove (specified decodeR decodeError envR) ctx nameOrID w)
                    = Some err)"
  by (simp add: List_exactly_one Inspect_exactly_one Create_exactly_one
      ProcessInto_exactly_one)

text \<open>
  C5: \<open>Inspect\<close> of an identifier that does not exist returns an API error classified as
  not found, and no result. The identifier is not empty; the server answers the request
  for it with the status 404 and a failure payload that decodes to the message \<open>msg\<close>.
  With the response processor of the specification \<open>Inspect\<close> then returns a \<open>nil\<close>
  result and the structured error carrying that status and message.
\<close>

theorem Inspect_not_found:
  assumes "nameOrID \<noteq> []"
    and "GetClient env ctx = Inr conn"
    and "DoRequest env conn
           \<lparr>httpBody = None, httpMethod = ''GET'', endpoint = ''/secrets/%s/json'',
            queryParams = None, header = None, pathValues = [nameOrID]\<rparr> = Inr response"
    and "StatusCode response = StatusNotFound"
    and "decodeError (Body response) = Some msg"
  shows "fst (Inspect (specified decode decodeError env) ctx nameOrID options w) =
    (None, Some (APIError StatusNotFound msg))"
  using assms
  by (simp add: Inspect_returns ProcessInto_def statusError_def IsSuccess_def
      StatusNotFound_def)

theorem Inspect_not_found_witness:
  "fst (Inspect (specified demo_decode demo_decode (demo demo_decode)) (Context 2) ''gone''
         [] []) = (None, Some (APIError 404 ''no such secret''))"
proof -
  have h1: "''gone'' \<noteq> []" by simp
  have h2: "GetClient (demo demo_decode) (Context 2) = Inr (Connection 2)"
    by (simp add: demo_GetClient_def)
  have h3: "DoRequest (demo demo_decode) (Connection 2)
           \<lparr>httpBody = None, httpMethod = ''GET'', endpoint = ''/secrets/%s/json'',
            queryParams = None, header = None, pathValues = [''gone'']\<rparr>
        = Inr \<lparr>StatusCode = 404, Body = ''no such secret''\<rparr>"
    by (simp add: demo_DoRequest_def)
  have h4: "StatusCode \<lparr>StatusCode = 404, Body = ''no such secret''\<rparr> = StatusNotFound"
    by (simp add: StatusNotFound_def)
  have h5: "demo_decode (Body \<lparr>StatusCode = 404, Body = ''no such secret''\<rparr>)
        = Some ''no such secret''"
    by (simp add: demo_decode_def)
  show ?thesis
    using Inspect_not_found [where decodeError = demo_decode and decode = demo_decode
        and options = "[]" and w = "[]", OF h1 h2 h3 h4 h5]
    by (simp add: StatusNotFound_def)
qed

text \<open>
  C6: \<open>Remove\<close> processes the response into a \<open>nil\<close> target, so no body is decoded, and
  returns what that yields. With the response processor of the specification, once the
  server has answered: \<open>Remove\<close> returns \<open>nil\<close> exactly when the status indicates
  success; a failure whose payload decodes comes back as the structured error carrying
  the server's status and message; a not-found response yields an error. The decoder of
  result bodies plays no part.
\<close>

theorem Remove_reports_status:
  "(fst (Remove (specified decode decodeError env) ctx nameOrID w) = None)
     = (\<exists>conn response.
          GetClient env ctx = Inr conn
          \<and> DoRequest env conn
                \<lparr>httpBody = None, httpMethod = ''DELETE'', endpoint = ''/secrets/%s'',
                 queryParams = None, header = None, pathValues = [nameOrID]\<rparr>
              = Inr response
          \<and> IsSuccess response)
   \<and> (GetClient env ctx = Inr conn
       \<and> DoRequest env conn
             \<lparr>httpBody = None, httpMethod = ''DELETE'', endpoint = ''/secrets/%s'',
              queryParams = None, header = None, pathValues = [nameOrID]\<rparr>
           = Inr response \<longrightarrow>
        fst (Remove env ctx nameOrID w) = ProcessNil env response
        \<and> (\<not> IsSuccess response \<and> decodeError (Body response) = Some msg \<longrightarrow>
             fst (Remove (specified decode decodeError env) ctx nameOrID w)
               = Some (APIError (StatusCode response) msg))
        \<and> (StatusCode response = StatusNotFound \<longrightarrow>
             fst (Remove (specified decode decodeError env) ctx nameOrID w) \<noteq> None))
   \<and> Remove (specified decode decodeError env) ctx nameOrID w
        = Remove (specified decode' decodeError env) ctx nameOrID w"
proof -
  have iff: "(fst (Remove (specified decode decodeError env) ctx nameOrID w) = None)
     = (\<exists>conn response.
          GetClient env ctx = Inr conn
          \<and> DoRequest env conn
                \<lparr>httpBody = None, httpMethod = ''DELETE'', endpoint = ''/secrets/%s'',
                 queryParams = None, header = None, pathValues = [nameOrID]\<rparr>
              = Inr response
          \<and> IsSuccess response)"
    by (auto simp add: Remove_returns ProcessNone_def statusError_def
        split: sum.splits option.splits)
  have answered: "GetClient env ctx = Inr conn
       \<and> DoRequest env conn
             \<lparr>httpBody = None, httpMethod = ''DELETE'', endpoint = ''/secrets/%s'',
              queryParams = None, header = None, pathValues = [nameOrID]\<rparr>
           = Inr response \<longrightarrow>
        fst (Remove env ctx nameOrID w) = ProcessNil env response
        \<and> (\<not> IsSuccess response \<and> decodeError (Body response) = Some msg \<longrightarrow>
             fst (Remove (specified decode decodeError env) ctx nameOrID w)
               = Some (APIError (StatusCode response) msg))
        \<and> (StatusCode response = StatusNotFound \<longrightarrow>
             fst (Remove (specified decode decodeError env) ctx nameOrID w) \<noteq> None)"
    by (simp add: Remove_returns ProcessNone_def statusError_def IsSuccess_def
        StatusNotFound_def split: option.split)
  have no_decoder: "Remove (specified decode decodeError env) ctx nameOrID w
        = Remove (specified decode' decodeError env) ctx nameOrID w"
    by (simp add: Remove_def call_DoRequest_def split: sum.split)
  from iff answered no_decoder show ?thesis by blast
qed

theorem Remove_reports_status_witness:
  "GetClient (demo demo_decode) (Context 2) = Inr (Connection 2)
   \<and> DoRequest (demo demo_decode) (Connection 2)
        \<lparr>httpBody = None, httpMethod = ''DELETE'', endpoint = ''/secrets/%s'',
         queryParams = None, header = None, pathValues = [''gone'']\<rparr>
       = Inr \<lparr>StatusCode = 404, Body = ''no such secret''\<rparr>
   \<and> \<not> IsSuccess \<lparr>StatusCode = 404, Body = ''no such secret''\<rparr>
   \<and> demo_decode ''no such secret'' = Some ''no such secret''
   \<and> fst (Remove (specified demo_decode demo_decode (demo demo_decode)) (Context 2) ''gone'' [])
       = Some (APIError 404 ''no such secret'')
   \<and> fst (Remove (specified demo_decode demo_decode (demo demo_decode)) (Context 2)
            ''db-pass'' []) = None"
  using Remove_reports_status [where decodeError = demo_decode and decode = demo_decode
      and decode' = demo_decode and msg = "''no such secret''" and w = "[]"
      and env = "demo demo_decode" and ctx = "Context 2" and nameOrID = "''gone''"
      and conn = "Connection 2"
      and response = "\<lparr>StatusCode = 404, Body = ''no such secret''\<rparr>"]
    Remove_reports_status [where decodeError = demo_decode and decode = demo_decode
      and decode' = demo_decode and msg = "''abc123''" and w = "[]"
      and env = "demo demo_decode" and ctx = "Context 2" and nameOrID = "''db-pass''"
      and conn = "Connection 2"
      and response = "\<lparr>StatusCode = 200, Body = ''abc123''\<rparr>"]
  by (simp add: demo_GetClient_def demo_DoRequest_def demo_decode_def IsSuccess_def
      StatusNotFound_def)

end
